theory Spec2Isabelle
  imports Main
begin

section \<open>Strings as the scripts use them\<close>

text \<open>
  A JavaScript string is modelled as a \<^typ>\<open>string\<close>, one \<^typ>\<open>char\<close> per code unit, for
  texts whose code units lie below 256. The character classes below are the members of the
  ECMAScript classes in that range.
\<close>

definition isWhiteSpace :: "char \<Rightarrow> bool" where
  \<comment> \<open>what \<open>String.prototype.trim\<close> strips and \<open>\s\<close> matches: TAB, LF, VT, FF, CR, SPACE, NBSP\<close>
  "isWhiteSpace c =
     (c = CHR 0x09 \<or> c = CHR 0x0A \<or> c = CHR 0x0B \<or> c = CHR 0x0C \<or> c = CHR 0x0D \<or>
      c = CHR 0x20 \<or> c = CHR 0xA0)"

definition trim :: "string \<Rightarrow> string" where
  "trim s = rev (dropWhile isWhiteSpace (rev (dropWhile isWhiteSpace s)))"

fun startsWith :: "string \<Rightarrow> string \<Rightarrow> bool" where
  \<comment> \<open>\<open>startsWith p s\<close> is the script's \<open>s.startsWith(p)\<close>\<close>
  "startsWith [] s = True"
| "startsWith (p # ps) [] = False"
| "startsWith (p # ps) (c # cs) = (p = c \<and> startsWith ps cs)"

definition digitChar :: "nat \<Rightarrow> char" where
  "digitChar d = ''0123456789'' ! d"

fun decimal :: "nat \<Rightarrow> string" where
  \<comment> \<open>the digits a non-negative integer gets when it is concatenated to a string\<close>
  "decimal n = (if n < 10 then [digitChar n] else decimal (n div 10) @ [digitChar (n mod 10)])"

declare decimal.simps [simp del]

subsection \<open>Utils.isEmojiOnly\<close>

definition isEmoji :: "char \<Rightarrow> bool" where
  \<comment> \<open>the code points below 256 with the Unicode property Emoji: number sign, asterisk, the
      digits, copyright and registered sign\<close>
  "isEmoji c =
     (c = CHR 0x23 \<or> c = CHR 0x2A \<or> (48 \<le> (of_char c :: nat) \<and> (of_char c :: nat) \<le> 57) \<or>
      c = CHR 0xA9 \<or> c = CHR 0xAE)"

definition isEmojiOnly :: "string \<Rightarrow> bool" where
  "isEmojiOnly text =
     (trim text \<noteq> [] \<and> list_all (\<lambda>c. isEmoji c \<or> isWhiteSpace c) (trim text) \<and>
      length (trim text) \<le> 8)"

subsection \<open>Utils.parseFormatting and the text of its markup\<close>

text \<open>
  \<open>parseFormatting\<close> escapes the text, wraps what stands between two \<open>**\<close>, two \<open>__\<close>,
  two \<open>*\<close> and two \<open>_\<close> (four passes in this order, each pattern lazy and global) into
  \<open>strong\<close> and \<open>em\<close> elements, and turns every line feed into a \<open>br\<close> element. The
  markup is a list of pieces: a character of the text (written as its escape where
  \<open>escapeHtml\<close> escapes it) or an inserted tag. A pass runs on the markup the passes before
  it have built: a tag stands between the characters it separates, so two delimiters with a
  tag between them are not a doubled delimiter, and the dot of a pattern matches a tag's
  characters as it matches any character but a line terminator. Neither an escape nor a tag
  holds an asterisk, an underscore or a line terminator. The markup is assigned to
  \<open>innerHTML\<close>; the reconciliation of \<open>addMessage\<close> later reads the element's
  \<open>textContent\<close>, the characters of the markup without its tags. Texts with a carriage
  return or a NUL character, which the HTML parser rewrites, are outside the model.
\<close>

datatype markup = Text char | Tag string

definition isLineTerminator :: "char \<Rightarrow> bool" where
  "isLineTerminator c = (c = CHR 0x0A \<or> c = CHR 0x0D)"

fun endsLine :: "markup \<Rightarrow> bool" where
  "endsLine (Text c) = isLineTerminator c"
| "endsLine (Tag t) = False"

fun closeSingle :: "char \<Rightarrow> markup list \<Rightarrow> (markup list \<times> markup list) option" where
  \<comment> \<open>the shortest group before a closing delimiter \<open>d\<close>, and what follows the delimiter\<close>
  "closeSingle d [] = None"
| "closeSingle d (p # ps) =
     (if p = Text d then Some ([], ps)
      else if endsLine p then None
      else (case closeSingle d ps of None \<Rightarrow> None | Some (g, r) \<Rightarrow> Some (p # g, r)))"

fun closeDouble :: "char \<Rightarrow> markup list \<Rightarrow> (markup list \<times> markup list) option" where
  \<comment> \<open>the same for a doubled closing delimiter \<open>dd\<close>\<close>
  "closeDouble d [] = None"
| "closeDouble d [p] = None"
| "closeDouble d (p # p' # ps) =
     (if p = Text d \<and> p' = Text d then Some ([], ps)
      else if endsLine p then None
      else (case closeDouble d (p' # ps) of None \<Rightarrow> None | Some (g, r) \<Rightarrow> Some (p # g, r)))"

lemma closeSingle_shorter: "closeSingle d s = Some (g, r) \<Longrightarrow> length r < length s"
  by (induction s arbitrary: g r) (auto split: if_splits option.splits)

lemma closeDouble_shorter: "closeDouble d s = Some (g, r) \<Longrightarrow> length r < length s"
  by (induction d s arbitrary: g r rule: closeDouble.induct) (auto split: if_splits option.splits)

function replaceSingle :: "char \<Rightarrow> markup list \<Rightarrow> markup list" where
  \<comment> \<open>\<open>s.replace(/d(.*?)d/g, '<em>$1</em>')\<close>\<close>
  "replaceSingle d [] = []"
| "replaceSingle d (p # ps) =
     (if p = Text d then
        (case closeSingle d ps of
           None \<Rightarrow> p # replaceSingle d ps
         | Some (g, r) \<Rightarrow> Tag ''<em>'' # g @ Tag ''</em>'' # replaceSingle d r)
      else p # replaceSingle d ps)"
  by pat_completeness auto
termination
  by (relation "measure (\<lambda>(d, s). length s)") (auto dest: closeSingle_shorter)

function replaceDouble :: "char \<Rightarrow> markup list \<Rightarrow> markup list" where
  \<comment> \<open>\<open>s.replace(/dd(.*?)dd/g, '<strong>$1</strong>')\<close>\<close>
  "replaceDouble d [] = []"
| "replaceDouble d [p] = [p]"
| "replaceDouble d (p # p' # ps) =
     (if p = Text d \<and> p' = Text d then
        (case closeDouble d ps of
           None \<Rightarrow> p # replaceDouble d (p' # ps)
         | Some (g, r) \<Rightarrow> Tag ''<strong>'' # g @ Tag ''</strong>'' # replaceDouble d r)
      else p # replaceDouble d (p' # ps))"
  by pat_completeness auto
termination
  by (relation "measure (\<lambda>(d, s). length s)") (auto dest: closeDouble_shorter)

definition escapeHtml :: "string \<Rightarrow> markup list" where
  "escapeHtml text = map Text text"

definition lineBreaks :: "markup list \<Rightarrow> markup list" where
  \<comment> \<open>\<open>s.replace(/\n/g, '<br>')\<close>\<close>
  "lineBreaks ps = map (\<lambda>p. if p = Text (CHR 0x0A) then Tag ''<br>'' else p) ps"

definition parseFormatting :: "string \<Rightarrow> markup list" where
  "parseFormatting text =
     lineBreaks
       (replaceSingle (CHR ''_'') (replaceSingle (CHR ''*'')
         (replaceDouble (CHR ''_'') (replaceDouble (CHR ''*'') (escapeHtml text)))))"

fun textOf :: "markup list \<Rightarrow> string" where
  \<comment> \<open>\<open>textContent\<close> of an element whose \<open>innerHTML\<close> is the markup\<close>
  "textOf [] = []"
| "textOf (Text c # ps) = c # textOf ps"
| "textOf (Tag t # ps) = textOf ps"

definition renderedText :: "string \<Rightarrow> string" where
  \<comment> \<open>what \<open>textContent\<close> of a message's \<open>.message-content\<close> element reads after it was
      filled by \<open>addMessage\<close> or \<open>prependMessages\<close>\<close>
  "renderedText c = (if isEmojiOnly c then c else textOf (parseFormatting c))"

section \<open>Messages and the page\<close>

datatype role = User | Assistant

text \<open>
  A message as the server's responses and \<open>sendMessage\<close> build it. The timestamp is the
  instant in milliseconds since the epoch (the ISO-8601 text of the source is that instant
  written out: \<open>toISOString\<close> and \<open>new Date(text)\<close> undo each other). A message without
  an \<open>options\<close> field has the empty list.
\<close>

record message =
  msgId :: string
  role :: role
  content :: string
  timestamp :: nat
  options :: "string list"

definition toDateString :: "(nat \<Rightarrow> int) \<Rightarrow> nat \<Rightarrow> int" where
  \<comment> \<open>\<open>new Date(timestamp).toDateString()\<close> names the calendar day of the instant in the
      local time zone; the model names the day by its number since the epoch. \<open>zone t\<close>
      is the offset of local time from UTC at the instant \<open>t\<close>, in milliseconds.\<close>
  "toDateString zone t = (int t + zone t) div 86400000"

text \<open>
  The response of the two history requests: \<open>messages\<close> (absent counts as empty),
  \<open>has_more\<close> and the optional \<open>next_cursor\<close>.
\<close>

record response =
  messages :: "message list"
  has_more :: bool
  next_cursor :: "string option"

text \<open>
  The children of \<open>#messages-container\<close>. A message's element keeps what the scripts
  read and write of it: the \<open>data-message-id\<close> attribute, the classes \<open>optimistic\<close> and
  \<open>failed\<close>, the text of its \<open>.message-content\<close> child and its option buttons. Field
  \<open>stamp\<close> is the timestamp of the message the element was built from; the DOM shows it
  only as a time of day, and the model keeps it to state where date dividers belong.
\<close>

record wrapper =
  messageId :: string
  wrapperRole :: role
  optimistic :: bool
  failed :: bool
  textContent :: string
  optionButtons :: "string list"
  stamp :: nat

datatype node = Divider nat | Wrapper wrapper

datatype request =
    SendMessageRequest "string option" string  \<comment> \<open>user id and content\<close>
  | GetMessagesRequest string string nat  \<comment> \<open>user id, \<open>before\<close> and limit\<close>
  | GetLatestMessagesRequest "string option" nat  \<comment> \<open>user id and limit\<close>

text \<open>
  The state of the page: the fields of the singletons \<open>Chat\<close> and \<open>ScrollManager\<close>, the
  parts of the document they read and write, the user id held in local storage, and the
  requests handed to \<open>fetch\<close> so far. The elements \<open>#typing-indicator\<close>, \<open>#toast\<close>
  and \<open>#load-more-indicator\<close> of the page are taken to exist. Field \<open>toasts\<close> lists
  the calls of \<open>Utils.showToast\<close> (message and type). What the scripts change for looks
  alone (the class \<open>sending\<close> of the send button, the height of the input, the focus, the
  status line) is left out. Field \<open>zoneOffset\<close> is the browser's local time zone: the
  offset of local time from UTC at an instant, in milliseconds. The scripts never change it.
\<close>

record page =
  container :: "node list"
  inputValue :: string
  sendDisabled :: bool
  isSending :: bool
  lastMessageDate :: "int option"
  typingShown :: bool
  userId :: "string option"
  requests :: "request list"
  toasts :: "(string \<times> string) list"
  isLoadingMore :: bool
  hasMoreMessages :: bool
  oldestMessageId :: "string option"
  scrollTop :: int
  loadingShown :: bool
  storedUserId :: "string option"
  zoneOffset :: "nat \<Rightarrow> int"

definition truthy :: "string option \<Rightarrow> bool" where
  \<comment> \<open>JavaScript's truth value of a string or null: null and the empty string are falsy\<close>
  "truthy v = (case v of None \<Rightarrow> False | Some s \<Rightarrow> s \<noteq> [])"

definition initialPage :: page where
  \<comment> \<open>the fields as the object literals set them, over an empty document, in a browser
      whose local time is UTC\<close>
  "initialPage =
     \<lparr>container = [], inputValue = [], sendDisabled = False, isSending = False,
      lastMessageDate = None, typingShown = False, userId = None, requests = [], toasts = [],
      isLoadingMore = False, hasMoreMessages = True, oldestMessageId = None, scrollTop = 0,
      loadingShown = False, storedUserId = None, zoneOffset = (\<lambda>t. 0)\<rparr>"

section \<open>Chat\<close>

subsection \<open>Indicators and notifications\<close>

definition showTyping :: "bool \<Rightarrow> page \<Rightarrow> page" where
  \<comment> \<open>\<open>ScrollManager.scrollToBottom\<close> only requests an animation frame: the scroll offset
      changes when the frame runs, not in the call\<close>
  "showTyping sh st = st\<lparr>typingShown := sh\<rparr>"

definition showToast :: "string \<Rightarrow> string \<Rightarrow> page \<Rightarrow> page" where
  "showToast msg type st = st\<lparr>toasts := toasts st @ [(msg, type)]\<rparr>"

definition handleInputChange :: "page \<Rightarrow> page" where
  "handleInputChange st = st\<lparr>sendDisabled := (\<not> (length (trim (inputValue st)) > 0) \<or> isSending st)\<rparr>"

subsection \<open>addMessage\<close>

fun reconcile :: "message \<Rightarrow> node list \<Rightarrow> node list option" where
  \<comment> \<open>\<open>document.querySelector('[data-message-id^="temp-"]')\<close> is the first element in document
      order whose id starts with \<open>temp-\<close>; when its text is the message's content, its id is
      rewritten and its class \<open>optimistic\<close> removed. \<open>None\<close>: no rewrite happened.\<close>
  "reconcile m [] = None"
| "reconcile m (Divider t # ns) =
     (case reconcile m ns of None \<Rightarrow> None | Some ns' \<Rightarrow> Some (Divider t # ns'))"
| "reconcile m (Wrapper w # ns) =
     (if startsWith ''temp-'' (messageId w) then
        (if textContent w = content m
         then Some (Wrapper (w\<lparr>messageId := msgId m, optimistic := False\<rparr>) # ns)
         else None)
      else (case reconcile m ns of None \<Rightarrow> None | Some ns' \<Rightarrow> Some (Wrapper w # ns')))"

definition newWrapper :: "message \<Rightarrow> wrapper" where
  "newWrapper m =
     \<lparr>messageId = msgId m, wrapperRole = role m, optimistic = startsWith ''temp-'' (msgId m),
      failed = False, textContent = renderedText (content m), optionButtons = options m,
      stamp = timestamp m\<rparr>"

definition insertMessage :: "message \<Rightarrow> bool \<Rightarrow> page \<Rightarrow> page" where
  \<comment> \<open>\<open>addMessage\<close> from the creation of the wrapper on\<close>
  "insertMessage m prepend st =
     (let messageDate = toDateString (zoneOffset st) (timestamp m);
          st1 =
            (if \<not> prepend \<and> lastMessageDate st \<noteq> Some messageDate then
               (if lastMessageDate st \<noteq> None
                then st\<lparr>container := container st @ [Divider (timestamp m)],
                        lastMessageDate := Some messageDate\<rparr>
                else st\<lparr>lastMessageDate := Some messageDate\<rparr>)
             else st)
      in if prepend then st1\<lparr>container := Wrapper (newWrapper m) # container st1\<rparr>
         else st1\<lparr>container := container st1 @ [Wrapper (newWrapper m)]\<rparr>)"

definition addMessage :: "message \<Rightarrow> bool \<Rightarrow> page \<Rightarrow> page" where
  "addMessage m prepend st =
     (if role m = User \<and> \<not> startsWith ''temp-'' (msgId m) then
        (case reconcile m (container st) of
           Some ns \<Rightarrow> st\<lparr>container := ns\<rparr>
         | None \<Rightarrow> insertMessage m prepend st)
      else insertMessage m prepend st)"

subsection \<open>prependMessages\<close>

fun renderPage :: "(nat \<Rightarrow> int) \<Rightarrow> int option \<Rightarrow> message list \<Rightarrow> node list" where
  \<comment> \<open>the fragment built by the \<open>forEach\<close> of \<open>prependMessages\<close>, in the time zone given;
      the second argument is \<open>lastDate\<close>. These wrappers get neither the class
      \<open>optimistic\<close> nor option buttons.\<close>
  "renderPage zone lastDate [] = []"
| "renderPage zone lastDate (m # ms) =
     (let messageDate = toDateString zone (timestamp m);
          w = Wrapper ((newWrapper m)\<lparr>optimistic := False, optionButtons := []\<rparr>)
      in if lastDate \<noteq> Some messageDate
         then Divider (timestamp m) # w # renderPage zone (Some messageDate) ms
         else w # renderPage zone lastDate ms)"

definition prependMessages :: "message list \<Rightarrow> page \<Rightarrow> page" where
  \<comment> \<open>\<open>Array.prototype.sort\<close> is stable, as \<open>sort_key\<close> is\<close>
  "prependMessages ms st =
     st\<lparr>container := renderPage (zoneOffset st) None (sort_key timestamp ms) @ container st\<rparr>"

subsection \<open>loadMessages\<close>

text \<open>
  \<open>Chat.loadMessages\<close> up to its \<open>await\<close>, and after its request has settled
  (\<open>None\<close>: the request threw).
\<close>

definition loadMessages :: "page \<Rightarrow> page" where
  "loadMessages st = st\<lparr>requests := requests st @ [GetLatestMessagesRequest (userId st) 50]\<rparr>"

definition loadMessagesSettled :: "response option \<Rightarrow> page \<Rightarrow> page" where
  "loadMessagesSettled outcome st =
     (case outcome of
        None \<Rightarrow> showToast ''Failed to load messages'' ''error'' st
      | Some r \<Rightarrow>
          (case messages r of
             [] \<Rightarrow> st
           | m # ms \<Rightarrow>
               (let st1 = st\<lparr>container := [], lastMessageDate := None\<rparr>;
                    st2 = foldl (\<lambda>s x. addMessage x False s) st1 (messages r)
                in st2\<lparr>hasMoreMessages := has_more r, oldestMessageId := Some (msgId m)\<rparr>)))"

subsection \<open>sendMessage\<close>

fun markFailed :: "string \<Rightarrow> node list \<Rightarrow> node list" where
  \<comment> \<open>\<open>document.querySelector('[data-message-id="ID"]')\<close>, then \<open>classList.add('failed')\<close>
      when an element was found\<close>
  "markFailed i [] = []"
| "markFailed i (Divider t # ns) = Divider t # markFailed i ns"
| "markFailed i (Wrapper w # ns) =
     (if messageId w = i then Wrapper (w\<lparr>failed := True\<rparr>) # ns
      else Wrapper w # markFailed i ns)"

text \<open>
  An \<open>async\<close> function runs up to its first \<open>await\<close> in the call and the rest when the
  awaited promise settles; other handlers may run in between. \<open>sendMessage\<close> is the first
  part: it takes the two clock readings (\<open>Date.now()\<close> and \<open>new Date()\<close>) and the
  argument \<open>text\<close> (\<open>None\<close> for null), and returns the provisional message the suspended
  call holds, or \<open>None\<close> when the call has returned. \<open>sendMessageSettled\<close> is the second
  part, run on the page as it is when the request settles, with what the request came to. An
  exception raised after the response has arrived reaches the same \<open>catch\<close> block as a
  failed request: it is the outcome \<open>Rejected\<close> on the page as it was left.
  \<open>sendMessageAwaited\<close> is a whole call with nothing running in between.
\<close>

definition sendMessage :: "nat \<Rightarrow> nat \<Rightarrow> string option \<Rightarrow> page \<Rightarrow> page \<times> message option" where
  "sendMessage now clock text st =
     (let content = (if truthy text then the text else trim (inputValue st)) in
      if content = [] \<or> isSending st then (st, None)
      else
        (let tempUserMsg =
               \<lparr>msgId = ''temp-'' @ decimal now, role = User, content = content,
                timestamp = clock, options = []\<rparr>;
             st1 = st\<lparr>isSending := True, sendDisabled := True\<rparr>;
             st2 = addMessage tempUserMsg False st1;
             st3 = (if \<not> truthy text then st2\<lparr>inputValue := []\<rparr> else st2);
             st4 = showTyping True st3
         in (st4\<lparr>requests := requests st4 @ [SendMessageRequest (userId st4) content]\<rparr>,
             Some tempUserMsg)))"

datatype send_outcome =
    Resolved "message option"  \<comment> \<open>the response, with its \<open>assistant_message\<close> or null\<close>
  | Rejected string  \<comment> \<open>the request threw an error with this message\<close>

definition sendFinally :: "page \<Rightarrow> page" where
  "sendFinally st = handleInputChange (st\<lparr>isSending := False\<rparr>)"

definition sendMessageSettled :: "message \<Rightarrow> send_outcome \<Rightarrow> page \<Rightarrow> page" where
  "sendMessageSettled tempUserMsg outcome st =
     sendFinally
       (case outcome of
          Resolved assistant_message \<Rightarrow>
            (case assistant_message of
               None \<Rightarrow> showTyping False st
             | Some m \<Rightarrow> addMessage m False (showTyping False st))
        | Rejected msg \<Rightarrow>
            (let st1 = showToast (if msg \<noteq> [] then msg else ''Failed to send message'') ''error'' st;
                 st2 = st1\<lparr>container := markFailed (msgId tempUserMsg) (container st1)\<rparr>
             in showTyping False st2))"

definition sendMessageAwaited ::
  "nat \<Rightarrow> nat \<Rightarrow> string option \<Rightarrow> send_outcome \<Rightarrow> page \<Rightarrow> page" where
  \<comment> \<open>a whole call of \<open>sendMessage\<close>, nothing else running while it awaits\<close>
  "sendMessageAwaited now clock arg outcome st =
     (case sendMessage now clock arg st of
        (st1, None) \<Rightarrow> st1
      | (st1, Some tempUserMsg) \<Rightarrow> sendMessageSettled tempUserMsg outcome st1)"

section \<open>ScrollManager\<close>

text \<open>
  The scroll container \<open>#chat-container\<close>. What the browser lays out is a parameter: the
  height of the scrollable content, given the children of the message container and whether
  the load-more and the typing indicator are displayed, and the height of the viewport.
  \<open>scrollHeight\<close> is never below the viewport's height, and an assignment to
  \<open>scrollTop\<close> is clamped to the scrollable range; \<open>userScroll\<close> is the browser moving
  the offset on a scroll gesture. Lengths are whole pixels.
\<close>

record layout =
  extent :: "node list \<Rightarrow> bool \<Rightarrow> bool \<Rightarrow> int"
  clientHeight :: int

definition scrollHeight :: "layout \<Rightarrow> page \<Rightarrow> int" where
  "scrollHeight L st =
     max (clientHeight L) (extent L (container st) (loadingShown st) (typingShown st))"

definition setScrollTop :: "layout \<Rightarrow> int \<Rightarrow> page \<Rightarrow> page" where
  "setScrollTop L v st = st\<lparr>scrollTop := max 0 (min v (scrollHeight L st - clientHeight L))\<rparr>"

definition userScroll :: "layout \<Rightarrow> int \<Rightarrow> page \<Rightarrow> page" where
  "userScroll L v st = setScrollTop L v st"

text \<open>
  \<open>ScrollManager.loadOlderMessages\<close>, split at its \<open>await\<close> like \<open>sendMessage\<close>. The
  suspended call holds the scroll height and offset it read before the request was issued.
\<close>

record pending_load =
  savedScrollHeight :: int
  savedScrollTop :: int

definition showLoadingIndicator :: "bool \<Rightarrow> page \<Rightarrow> page" where
  "showLoadingIndicator sh st = st\<lparr>loadingShown := sh\<rparr>"

definition loadFinally :: "page \<Rightarrow> page" where
  "loadFinally st = showLoadingIndicator False (st\<lparr>isLoadingMore := False\<rparr>)"

definition loadOlderMessages :: "layout \<Rightarrow> page \<Rightarrow> page \<times> pending_load option" where
  "loadOlderMessages L st =
     (if isLoadingMore st \<or> \<not> hasMoreMessages st \<or> \<not> truthy (oldestMessageId st) then (st, None)
      else
        (let st1 = showLoadingIndicator True (st\<lparr>isLoadingMore := True\<rparr>) in
         if \<not> truthy (storedUserId st1) then (loadFinally st1, None)
         else
           (st1\<lparr>requests := requests st1 @
               [GetMessagesRequest (the (storedUserId st1)) (the (oldestMessageId st1)) 20]\<rparr>,
            Some \<lparr>savedScrollHeight = scrollHeight L st1, savedScrollTop = scrollTop st1\<rparr>)))"

datatype load_outcome = Loaded response | LoadRejected

definition loadOlderMessagesSettled :: "layout \<Rightarrow> pending_load \<Rightarrow> load_outcome \<Rightarrow> page \<Rightarrow> page" where
  "loadOlderMessagesSettled L saved outcome st =
     loadFinally
       (case outcome of
          Loaded r \<Rightarrow>
            (case messages r of
               [] \<Rightarrow> st\<lparr>hasMoreMessages := False\<rparr>
             | m # ms \<Rightarrow>
                 (let st1 = st\<lparr>oldestMessageId :=
                                 Some (if truthy (next_cursor r) then the (next_cursor r) else msgId m),
                               hasMoreMessages := has_more r\<rparr>;
                      st2 = prependMessages (messages r) st1;
                      newScrollHeight = scrollHeight L st2
                  in setScrollTop L (savedScrollTop saved + (newScrollHeight - savedScrollHeight saved)) st2))
        | LoadRejected \<Rightarrow> showToast ''Failed to load older messages'' ''error'' st)"

section \<open>WS, the transport\<close>

text \<open>
  The fields of the singleton \<open>WS\<close> and what its handlers start: \<open>timers\<close> are the
  delays of the reconnects scheduled with \<open>setTimeout\<close> and not yet run, \<open>connecting\<close> and
  \<open>opened\<close> count the sockets in state CONNECTING and OPEN, \<open>pingIntervals\<close> the
  keepalive intervals running, and \<open>pingHandleLive\<close> says whether the interval held in
  \<open>this.pingInterval\<close> is one of them. Two counters record history: \<open>sockets\<close>, the sockets
  created so far, and \<open>automatic\<close>, those created by a reconnect timer.
\<close>

record transport =
  reconnectInterval :: nat
  maxReconnectAttempts :: nat
  reconnectAttempts :: nat
  timers :: "nat list"
  connecting :: nat
  opened :: nat
  pingIntervals :: nat
  pingHandleLive :: bool
  sockets :: nat
  automatic :: nat

definition initialTransport :: transport where
  "initialTransport =
     \<lparr>reconnectInterval = 3000, maxReconnectAttempts = 5, reconnectAttempts = 0, timers = [],
      connecting = 0, opened = 0, pingIntervals = 0, pingHandleLive = False, sockets = 0,
      automatic = 0\<rparr>"

definition connect :: "transport \<Rightarrow> transport" where
  "connect t = t\<lparr>sockets := sockets t + 1, connecting := connecting t + 1\<rparr>"

definition onopen :: "transport \<Rightarrow> transport" where
  "onopen t =
     t\<lparr>reconnectAttempts := 0, pingIntervals := pingIntervals t + 1, pingHandleLive := True\<rparr>"

definition clearPingInterval :: "transport \<Rightarrow> transport" where
  "clearPingInterval t =
     (if pingHandleLive t then t\<lparr>pingIntervals := pingIntervals t - 1, pingHandleLive := False\<rparr>
      else t)"

definition onclose :: "transport \<Rightarrow> transport" where
  "onclose t =
     (let t1 = clearPingInterval t in
      if reconnectAttempts t1 < maxReconnectAttempts t1
      then t1\<lparr>reconnectAttempts := reconnectAttempts t1 + 1,
              timers := timers t1 @ [reconnectInterval t1]\<rparr>
      else t1)"

text \<open>
  What can happen to the transport: an explicit call of \<open>connect\<close> (\<open>WS.init\<close> makes the
  first), a connecting socket opening or closing without having opened, an open socket
  closing, and a scheduled reconnect running. All scheduled reconnects have the same delay, so
  they run in the order they were scheduled. \<open>step\<close> is \<open>None\<close> for an event that cannot
  happen in the state; \<open>run\<close> runs a sequence of events.
\<close>

datatype ws_event = Connect | Opened | Failed | Dropped | TimerFired

fun step :: "transport \<Rightarrow> ws_event \<Rightarrow> transport option" where
  "step t Connect = Some (connect t)"
| "step t Opened =
     (if 0 < connecting t
      then Some (onopen (t\<lparr>connecting := connecting t - 1, opened := opened t + 1\<rparr>))
      else None)"
| "step t Failed =
     (if 0 < connecting t then Some (onclose (t\<lparr>connecting := connecting t - 1\<rparr>)) else None)"
| "step t Dropped =
     (if 0 < opened t then Some (onclose (t\<lparr>opened := opened t - 1\<rparr>)) else None)"
| "step t TimerFired =
     (case timers t of
        [] \<Rightarrow> None
      | d # ds \<Rightarrow> Some (connect (t\<lparr>timers := ds, automatic := automatic t + 1\<rparr>)))"

fun run :: "transport \<Rightarrow> ws_event list \<Rightarrow> transport option" where
  "run t [] = Some t"
| "run t (e # es) = (case step t e of None \<Rightarrow> None | Some t' \<Rightarrow> run t' es)"

section \<open>What the properties speak of\<close>

subsection \<open>The children of the container\<close>

fun isProvisional :: "node \<Rightarrow> bool" where
  "isProvisional (Divider t) = False"
| "isProvisional (Wrapper w) = startsWith ''temp-'' (messageId w)"

fun hasId :: "string \<Rightarrow> node \<Rightarrow> bool" where
  "hasId i (Divider t) = False"
| "hasId i (Wrapper w) = (messageId w = i)"

fun clearFailed :: "node \<Rightarrow> node" where
  "clearFailed (Divider t) = Divider t"
| "clearFailed (Wrapper w) = Wrapper (w\<lparr>failed := False\<rparr>)"

subsection \<open>Date dividers in their places\<close>

text \<open>
  Where date dividers belong: between two messages that are adjacent in the list (dividers
  apart) stands one divider when their timestamps fall on different calendar dates and none
  when they fall on the same date, and no divider stands before the first or after the last
  message. \<open>dividersFrom zone prev k\<close> reads the list with the timestamp of the last
  message passed and the number of dividers passed since; dates are those of the time zone.
\<close>

fun dividersFrom :: "(nat \<Rightarrow> int) \<Rightarrow> nat option \<Rightarrow> nat \<Rightarrow> node list \<Rightarrow> bool" where
  "dividersFrom zone prev k [] = (k = 0)"
| "dividersFrom zone prev k (Divider t # ns) = dividersFrom zone prev (Suc k) ns"
| "dividersFrom zone prev k (Wrapper w # ns) =
     ((case prev of
         None \<Rightarrow> k = 0
       | Some p \<Rightarrow> k = (if toDateString zone p \<noteq> toDateString zone (stamp w) then 1 else 0)) \<and>
      dividersFrom zone (Some (stamp w)) 0 ns)"

definition dividersExact :: "(nat \<Rightarrow> int) \<Rightarrow> node list \<Rightarrow> bool" where
  "dividersExact zone ns = dividersFrom zone None 0 ns"

fun lastStampFrom :: "nat option \<Rightarrow> node list \<Rightarrow> nat option" where
  \<comment> \<open>the timestamp of the last message of the list, or of the one before the list\<close>
  "lastStampFrom prev [] = prev"
| "lastStampFrom prev (Divider t # ns) = lastStampFrom prev ns"
| "lastStampFrom prev (Wrapper w # ns) = lastStampFrom (Some (stamp w)) ns"

definition appendInvariant :: "page \<Rightarrow> bool" where
  \<comment> \<open>what the append path of \<open>addMessage\<close> keeps: the dividers are where they belong and
      \<open>lastMessageDate\<close> is the date of the last message\<close>
  "appendInvariant st =
     (dividersExact (zoneOffset st) (container st) \<and>
      lastMessageDate st =
        map_option (toDateString (zoneOffset st)) (lastStampFrom None (container st)))"

subsection \<open>The reconnects a transport has made and may still make\<close>

definition budget :: "transport \<Rightarrow> nat" where
  "budget t = automatic t + length (timers t) + (maxReconnectAttempts t - reconnectAttempts t)"

subsection \<open>A page and a transport for examples\<close>

definition rowLayout :: layout where
  \<comment> \<open>a layout for examples: every child of the container is 100 units high, the viewport 100\<close>
  "rowLayout = \<lparr>extent = (\<lambda>ns l t. 100 * int (length ns)), clientHeight = 100\<rparr>"

definition latestResponse :: response where
  "latestResponse = \<lparr>messages =
      [\<lparr>msgId = ''m3'', role = User, content = ''hello'', timestamp = 86401000, options = []\<rparr>,
       \<lparr>msgId = ''m4'', role = Assistant, content = ''welcome'', timestamp = 86402000, options = []\<rparr>],
     has_more = True, next_cursor = None\<rparr>"

definition olderResponse :: response where
  "olderResponse = \<lparr>messages =
      [\<lparr>msgId = ''m2'', role = Assistant, content = ''earlier'', timestamp = 86400500, options = []\<rparr>],
     has_more = False, next_cursor = None\<rparr>"

definition loadedPage :: page where
  \<comment> \<open>the page after the initial load of \<open>latestResponse\<close> for the stored user, scrolled to offset 50\<close>
  "loadedPage =
     userScroll rowLayout 50
       (loadMessagesSettled (Some latestResponse)
         (loadMessages (initialPage\<lparr>storedUserId := Some ''u1'', userId := Some ''u1''\<rparr>)))"

definition fetchingPage :: page where
  \<comment> \<open>\<open>loadedPage\<close> after a call of \<open>loadOlderMessages\<close> that awaits its fetch\<close>
  "fetchingPage = fst (loadOlderMessages rowLayout loadedPage)"

definition savedReadings :: pending_load where
  \<comment> \<open>what that call read of the scroll container\<close>
  "savedReadings = \<lparr>savedScrollHeight = 200, savedScrollTop = 50\<rparr>"

definition emptyResponse :: response where
  "emptyResponse = \<lparr>messages = [], has_more = True, next_cursor = None\<rparr>"

definition hiProvisional :: message where
  \<comment> \<open>the provisional message of sending \<open>Hi\<close> at clock reading 1700000000000\<close>
  "hiProvisional =
     \<lparr>msgId = ''temp-1700000000000'', role = User, content = ''Hi'',
      timestamp = 1700000000000, options = []\<rparr>"

definition hiSent :: page where
  "hiSent = fst (sendMessage 1700000000000 1700000000000 (Some ''Hi'') initialPage)"

definition echoMessage :: message where
  \<comment> \<open>a user message with an authoritative id\<close>
  "echoMessage = \<lparr>msgId = ''m2'', role = User, content = ''b'', timestamp = 9, options = []\<rparr>"

definition markedEntry :: wrapper where
  \<comment> \<open>an element with the class \<open>optimistic\<close> whose id has no prefix \<open>temp-\<close>\<close>
  "markedEntry =
     \<lparr>messageId = ''m0'', wrapperRole = User, optimistic = True, failed = False,
      textContent = ''b'', optionButtons = [], stamp = 3\<rparr>"

definition prefixedEntry :: wrapper where
  \<comment> \<open>an element without the class \<open>optimistic\<close> whose id has the prefix \<open>temp-\<close>\<close>
  "prefixedEntry =
     \<lparr>messageId = ''temp-7'', wrapperRole = User, optimistic = False, failed = False,
      textContent = ''b'', optionButtons = [], stamp = 7\<rparr>"

definition failedReconnects :: "ws_event list" where
  \<comment> \<open>the first connection and five automatic reconnects, none of which opens\<close>
  "failedReconnects =
     [Connect, Failed, TimerFired, Failed, TimerFired, Failed, TimerFired, Failed,
      TimerFired, Failed, TimerFired, Failed]"

definition exhaustedTransport :: transport where
  \<comment> \<open>the transport after \<open>failedReconnects\<close>\<close>
  "exhaustedTransport =
     \<lparr>reconnectInterval = 3000, maxReconnectAttempts = 5, reconnectAttempts = 5, timers = [],
      connecting = 0, opened = 0, pingIntervals = 0, pingHandleLive = False, sockets = 6,
      automatic = 5\<rparr>"

subsection \<open>Unfolding the model on concrete pages\<close>

lemmas string_defs = trim_def isWhiteSpace_def isEmoji_def isEmojiOnly_def isLineTerminator_def
  parseFormatting_def escapeHtml_def lineBreaks_def renderedText_def truthy_def digitChar_def
  decimal.simps

lemmas chat_defs = sendMessage_def sendMessageSettled_def sendFinally_def handleInputChange_def
  showTyping_def showToast_def addMessage_def insertMessage_def newWrapper_def toDateString_def
  prependMessages_def initialPage_def Let_def

lemmas scroll_defs = scrollHeight_def setScrollTop_def userScroll_def loadMessages_def
  loadMessagesSettled_def
  showLoadingIndicator_def loadFinally_def loadOlderMessages_def loadOlderMessagesSettled_def

lemmas example_defs = rowLayout_def latestResponse_def olderResponse_def loadedPage_def
  fetchingPage_def savedReadings_def emptyResponse_def
  hiProvisional_def hiSent_def echoMessage_def markedEntry_def prefixedEntry_def

lemmas transport_defs = connect_def onopen_def onclose_def clearPingInterval_def Let_def

section \<open>Properties of sending\<close>

lemma insertMessage_fields:
  "isSending (insertMessage m p st) = isSending st"
  "inputValue (insertMessage m p st) = inputValue st"
  "requests (insertMessage m p st) = requests st"
  "toasts (insertMessage m p st) = toasts st"
  "userId (insertMessage m p st) = userId st"
  "sendDisabled (insertMessage m p st) = sendDisabled st"
  "typingShown (insertMessage m p st) = typingShown st"
  "zoneOffset (insertMessage m p st) = zoneOffset st"
  by (simp_all add: insertMessage_def Let_def)

lemma addMessage_fields:
  "isSending (addMessage m p st) = isSending st"
  "inputValue (addMessage m p st) = inputValue st"
  "requests (addMessage m p st) = requests st"
  "toasts (addMessage m p st) = toasts st"
  "userId (addMessage m p st) = userId st"
  "sendDisabled (addMessage m p st) = sendDisabled st"
  "typingShown (addMessage m p st) = typingShown st"
  "zoneOffset (addMessage m p st) = zoneOffset st"
  by (simp_all add: addMessage_def insertMessage_fields split: option.splits)

lemma startsWith_append: "startsWith p (p @ s)"
  by (induction p) simp_all

lemma addMessage_provisional:
  "startsWith ''temp-'' (msgId m) \<Longrightarrow> addMessage m p st = insertMessage m p st"
  by (simp add: addMessage_def)

lemma insertMessage_append_last:
  "\<exists>pre. container (insertMessage m False st) = pre @ [Wrapper (newWrapper m)]"
  by (simp add: insertMessage_def Let_def)

lemma insertMessage_append:
  "container (insertMessage m False st) =
     container st @
     (if lastMessageDate st \<noteq> Some (toDateString (zoneOffset st) (timestamp m)) \<and>
         lastMessageDate st \<noteq> None
      then [Divider (timestamp m)] else []) @
     [Wrapper (newWrapper m)]"
  by (simp add: insertMessage_def Let_def)

lemma sendMessage_rejected:
  "isSending st \<Longrightarrow> sendMessage now clock arg st = (st, None)"
  by (simp add: sendMessage_def Let_def)

lemma sendMessage_accepted_message:
  assumes "sendMessage now clock arg st = (st1, Some tmp)"
  shows "tmp = \<lparr>msgId = ''temp-'' @ decimal now, role = User,
                 content = (if truthy arg then the arg else trim (inputValue st)),
                 timestamp = clock, options = []\<rparr>"
  using assms by (simp add: sendMessage_def Let_def split: if_splits)

lemma sendMessage_accepted_state:
  assumes "sendMessage now clock arg st = (st1, Some tmp)"
  shows sendMessage_accepted_sending: "isSending st1"
    and sendMessage_accepted_entry: "\<exists>pre. container st1 = pre @ [Wrapper (newWrapper tmp)]"
    and sendMessage_accepted_request: "requests st1 = requests st @ [SendMessageRequest (userId st) (content tmp)]"
proof -
  from assms have ok: "\<not> ((if truthy arg then the arg else trim (inputValue st)) = [] \<or> isSending st)"
    by (auto simp: sendMessage_def Let_def split: if_splits)
  have tmp: "startsWith ''temp-'' (msgId tmp)"
    using sendMessage_accepted_message [OF assms] startsWith_append [of "''temp-''" "decimal now"]
    by simp
  from assms ok show "isSending st1"
    by (auto simp: sendMessage_def Let_def showTyping_def addMessage_fields split: if_splits)
  from assms ok obtain st2 where st2: "st2 = addMessage tmp False (st\<lparr>isSending := True, sendDisabled := True\<rparr>)"
    and c: "container st1 = container st2"
    by (auto simp: sendMessage_def Let_def showTyping_def split: if_splits)
  from st2 tmp have "st2 = insertMessage tmp False (st\<lparr>isSending := True, sendDisabled := True\<rparr>)"
    by (simp add: addMessage_provisional)
  with c insertMessage_append_last [of tmp "st\<lparr>isSending := True, sendDisabled := True\<rparr>"]
  show "\<exists>pre. container st1 = pre @ [Wrapper (newWrapper tmp)]"
    by simp
  from assms ok show "requests st1 = requests st @ [SendMessageRequest (userId st) (content tmp)]"
    by (auto simp: sendMessage_def Let_def showTyping_def addMessage_fields split: if_splits)
qed

lemma sendMessage_accepted_container:
  assumes "sendMessage now clock arg st = (st1, Some tmp)"
  shows "container st1 =
     container st @
     (if lastMessageDate st \<noteq> Some (toDateString (zoneOffset st) clock) \<and>
         lastMessageDate st \<noteq> None
      then [Divider clock] else []) @
     [Wrapper (newWrapper tmp)]"
proof -
  have tmp: "startsWith ''temp-'' (msgId tmp)" "timestamp tmp = clock"
    using sendMessage_accepted_message [OF assms] startsWith_append [of "''temp-''" "decimal now"]
    by simp_all
  from assms obtain st2 where st2: "st2 = addMessage tmp False (st\<lparr>isSending := True, sendDisabled := True\<rparr>)"
    and c: "container st1 = container st2"
    by (auto simp: sendMessage_def Let_def showTyping_def split: if_splits)
  from st2 tmp have "st2 = insertMessage tmp False (st\<lparr>isSending := True, sendDisabled := True\<rparr>)"
    by (simp add: addMessage_provisional)
  with c tmp show ?thesis
    by (simp add: insertMessage_append)
qed

lemma sendMessageSettled_releases: "\<not> isSending (sendMessageSettled tmp outcome st)"
  by (simp add: sendMessageSettled_def sendFinally_def handleInputChange_def)

text \<open>
  Claim C3. A call of \<open>sendMessage\<close> while a send is outstanding (\<open>isSending\<close> is true, as
  every accepted call leaves it) returns at once: the page is the same page, so no
  provisional entry was created and no request issued. However the request of the
  outstanding send settles, with a response or with an error thrown, the \<open>finally\<close> block
  has set \<open>isSending\<close> to false when the call returns.
\<close>

theorem C3_single_flight_and_release:
  "(sendMessage now clock arg st = (st1, Some tmp) \<longrightarrow>
      isSending st1 \<and> sendMessage now' clock' arg' st1 = (st1, None)) \<and>
   (isSending st \<longrightarrow> sendMessage now clock arg st = (st, None)) \<and>
   \<not> isSending (sendMessageSettled tmp' outcome st')"
  using sendMessage_accepted_sending [of now clock arg st st1 tmp]
        sendMessage_rejected [of st1 now' clock' arg']
        sendMessage_rejected [of st now clock arg]
        sendMessageSettled_releases [of tmp' outcome st']
  by blast

theorem C3_single_flight_and_release_witness:
  "isSending (fst (sendMessage 5 5 (Some ''hi'') initialPage)) \<and>
   sendMessage 6 6 (Some ''again'') (fst (sendMessage 5 5 (Some ''hi'') initialPage)) =
     (fst (sendMessage 5 5 (Some ''hi'') initialPage), None) \<and>
   \<not> isSending (sendMessageSettled
       \<lparr>msgId = ''temp-5'', role = User, content = ''hi'', timestamp = 5, options = []\<rparr>
       (Rejected ''offline'') (fst (sendMessage 5 5 (Some ''hi'') initialPage)))"
proof -
  have h: "sendMessage 5 5 (Some ''hi'') initialPage =
      (fst (sendMessage 5 5 (Some ''hi'') initialPage),
       Some \<lparr>msgId = ''temp-5'', role = User, content = ''hi'', timestamp = 5, options = []\<rparr>)"
    by (simp add: chat_defs string_defs)
  show ?thesis
    using h C3_single_flight_and_release
      [of 5 5 "Some ''hi''" initialPage "fst (sendMessage 5 5 (Some ''hi'') initialPage)"
          "\<lparr>msgId = ''temp-5'', role = User, content = ''hi'', timestamp = 5, options = []\<rparr>"
          6 6 "Some ''again''"
          "\<lparr>msgId = ''temp-5'', role = User, content = ''hi'', timestamp = 5, options = []\<rparr>"
          "Rejected ''offline''" "fst (sendMessage 5 5 (Some ''hi'') initialPage)"]
    by blast
qed

subsection \<open>Contents that are empty after trimming\<close>

lemma sendMessage_blank_input:
  "\<not> truthy arg \<Longrightarrow> trim (inputValue st) = [] \<Longrightarrow> sendMessage now clock arg st = (st, None)"
  by (simp add: sendMessage_def Let_def)

lemma sendMessage_text_untrimmed:
  "t \<noteq> [] \<Longrightarrow> \<not> isSending st \<Longrightarrow>
   snd (sendMessage now clock (Some t) st) =
     Some \<lparr>msgId = ''temp-'' @ decimal now, role = User, content = t, timestamp = clock,
       options = []\<rparr>"
  by (simp add: sendMessage_def Let_def truthy_def)

text \<open>
  Claim C9 says that a content whose trimmed form is empty is rejected also when it is passed
  as the argument \<open>text\<close>. The source trims the value of the input field only:
  \<open>text || this.input.value.trim()\<close> takes a non-empty \<open>text\<close> as it is, blank or not.
  Called on the initial page with the text of one space, \<open>sendMessage\<close> creates the
  provisional message, appends its element and issues the request.
\<close>

theorem C9_blank_text_is_sent:
  "trim '' '' = [] \<and>
   snd (sendMessage 5 5 (Some '' '') initialPage) =
     Some \<lparr>msgId = ''temp-5'', role = User, content = '' '', timestamp = 5, options = []\<rparr> \<and>
   container (fst (sendMessage 5 5 (Some '' '') initialPage)) =
     [Wrapper \<lparr>messageId = ''temp-5'', wrapperRole = User, optimistic = True, failed = False,
        textContent = '' '', optionButtons = [], stamp = 5\<rparr>] \<and>
   requests (fst (sendMessage 5 5 (Some '' '') initialPage)) = [SendMessageRequest None '' '']"
  by (simp add: chat_defs string_defs)

subsection \<open>A request that fails\<close>

lemma markFailed_last:
  "list_all (\<lambda>n. \<not> hasId i n) pre \<Longrightarrow> messageId w = i \<Longrightarrow>
   markFailed i (pre @ [Wrapper w]) = pre @ [Wrapper (w\<lparr>failed := True\<rparr>)]"
proof (induction pre)
  case Nil
  then show ?case by simp
next
  case (Cons n pre)
  then show ?case by (cases n) simp_all
qed

lemma markFailed_keeps: "map clearFailed (markFailed i ns) = map clearFailed ns"
proof (induction ns)
  case Nil
  then show ?case by simp
next
  case (Cons n ns)
  then show ?case by (cases n) simp_all
qed

lemma sendMessageSettled_rejected:
  "sendMessageSettled tmp (Rejected err) st =
     sendFinally (showTyping False
       ((showToast (if err \<noteq> [] then err else ''Failed to send message'') ''error'' st)
          \<lparr>container := markFailed (msgId tmp) (container st)\<rparr>))"
  by (simp add: sendMessageSettled_def Let_def showToast_def)

lemma sendMessageSettled_rejected_container:
  "container (sendMessageSettled tmp (Rejected err) st) = markFailed (msgId tmp) (container st)"
  by (simp add: sendMessageSettled_rejected sendFinally_def handleInputChange_def showTyping_def)

lemma sendMessageSettled_rejected_toasts:
  "toasts (sendMessageSettled tmp (Rejected err) st) =
     toasts st @ [(if err \<noteq> [] then err else ''Failed to send message'', ''error'')]"
  by (simp add: sendMessageSettled_rejected sendFinally_def handleInputChange_def showTyping_def
      showToast_def)

text \<open>
  The failure path on its own page: when the request of an accepted call fails with nothing
  having run in between, and no earlier entry has the call's provisional id, the entry the
  call created is still the last child of the container and has the class \<open>failed\<close>.
  Whatever the page is when the request fails, the failure path deletes and reorders nothing
  (the children are the same up to the class \<open>failed\<close>), and it shows the error's message,
  or \<open>Failed to send message\<close> when the message is empty, as a toast of type \<open>error\<close>.
\<close>

lemma failure_flags_fresh_entry:
  assumes "sendMessage now clock arg st = (st1, Some tmp)"
    and "list_all (\<lambda>n. \<not> hasId (msgId tmp) n) (container st)"
  shows "(\<exists>pre. container st1 = pre @ [Wrapper (newWrapper tmp)] \<and>
            container (sendMessageSettled tmp (Rejected err) st1) =
              pre @ [Wrapper ((newWrapper tmp)\<lparr>failed := True\<rparr>)]) \<and>
         map clearFailed (container (sendMessageSettled tmp (Rejected err) st')) =
           map clearFailed (container st') \<and>
         toasts (sendMessageSettled tmp (Rejected err) st') =
           toasts st' @ [(if err \<noteq> [] then err else ''Failed to send message'', ''error'')]"
proof -
  define ds where "ds =
     (if lastMessageDate st \<noteq> Some (toDateString (zoneOffset st) clock) \<and>
         lastMessageDate st \<noteq> None
      then [Divider clock] else [])"
  have c1: "container st1 = (container st @ ds) @ [Wrapper (newWrapper tmp)]"
    using sendMessage_accepted_container [OF assms(1)] by (simp add: ds_def)
  have fresh: "list_all (\<lambda>n. \<not> hasId (msgId tmp) n) (container st @ ds)"
    using assms(2) by (simp add: ds_def)
  have "markFailed (msgId tmp) ((container st @ ds) @ [Wrapper (newWrapper tmp)]) =
      (container st @ ds) @ [Wrapper ((newWrapper tmp)\<lparr>failed := True\<rparr>)]"
    using fresh by (rule markFailed_last) (simp add: newWrapper_def)
  with c1 have "container (sendMessageSettled tmp (Rejected err) st1) =
      (container st @ ds) @ [Wrapper ((newWrapper tmp)\<lparr>failed := True\<rparr>)]"
    by (simp add: sendMessageSettled_rejected_container)
  with c1 have first: "\<exists>pre. container st1 = pre @ [Wrapper (newWrapper tmp)] \<and>
            container (sendMessageSettled tmp (Rejected err) st1) =
              pre @ [Wrapper ((newWrapper tmp)\<lparr>failed := True\<rparr>)]"
    by blast
  show ?thesis
    using first
    by (simp add: sendMessageSettled_rejected_container sendMessageSettled_rejected_toasts
        markFailed_keeps)
qed

lemma failure_of_a_first_send:
  "sendMessage 1700000000000 1700000000000 (Some ''Hi'') initialPage = (hiSent, Some hiProvisional) \<and>
   list_all (\<lambda>n. \<not> hasId (msgId hiProvisional) n) (container initialPage) \<and>
   container hiSent = [Wrapper (newWrapper hiProvisional)] \<and>
   container (sendMessageSettled hiProvisional
       (Rejected ''Unable to connect to server. Please check your connection.'') hiSent) =
     [Wrapper \<lparr>messageId = ''temp-1700000000000'', wrapperRole = User, optimistic = True,
        failed = True, textContent = ''Hi'', optionButtons = [], stamp = 1700000000000\<rparr>] \<and>
   toasts (sendMessageSettled hiProvisional
       (Rejected ''Unable to connect to server. Please check your connection.'') hiSent) =
     [(''Unable to connect to server. Please check your connection.'', ''error'')]"
proof -
  let ?err = "''Unable to connect to server. Please check your connection.''"
  have h1: "sendMessage 1700000000000 1700000000000 (Some ''Hi'') initialPage =
      (hiSent, Some hiProvisional)"
    by (simp add: example_defs chat_defs string_defs)
  have h2: "list_all (\<lambda>n. \<not> hasId (msgId hiProvisional) n) (container initialPage)"
    by (simp add: initialPage_def)
  have w: "newWrapper hiProvisional =
      \<lparr>messageId = ''temp-1700000000000'', wrapperRole = User, optimistic = True,
       failed = False, textContent = ''Hi'', optionButtons = [], stamp = 1700000000000\<rparr>"
    by (simp add: example_defs newWrapper_def string_defs)
  have c0: "container hiSent = [Wrapper (newWrapper hiProvisional)]"
    by (simp add: example_defs chat_defs string_defs)
  from failure_flags_fresh_entry [OF h1 h2, of ?err hiSent]
  obtain pre where pre: "container hiSent = pre @ [Wrapper (newWrapper hiProvisional)]"
    and c: "container (sendMessageSettled hiProvisional (Rejected ?err) hiSent) =
       pre @ [Wrapper ((newWrapper hiProvisional)\<lparr>failed := True\<rparr>)]"
    and t: "toasts (sendMessageSettled hiProvisional (Rejected ?err) hiSent) =
       toasts hiSent @ [(?err, ''error'')]"
    by auto
  from pre c0 have "pre = []" by simp
  with c w have c': "container (sendMessageSettled hiProvisional (Rejected ?err) hiSent) =
     [Wrapper \<lparr>messageId = ''temp-1700000000000'', wrapperRole = User, optimistic = True,
        failed = True, textContent = ''Hi'', optionButtons = [], stamp = 1700000000000\<rparr>]"
    by simp
  have "toasts hiSent = []"
    by (simp add: example_defs chat_defs string_defs)
  with t have t': "toasts (sendMessageSettled hiProvisional (Rejected ?err) hiSent) =
       [(?err, ''error'')]"
    by simp
  from h1 h2 c0 c' t' show ?thesis by simp
qed

text \<open>
  Claim C7 says that when the request of a call of \<open>sendMessage\<close> fails, the provisional
  entry that call created stays in the list and is flagged \<open>failed\<close> in place, and the
  failure is shown to the user instead of being thrown. The \<open>catch\<close> block does not hold
  the entry it created: it looks it up again with
  \<open>document.querySelector('[data-message-id="temp-..."]')\<close>, which is the first element
  with that id, and ids are \<open>temp-\<close> and the clock's reading. In the run below two sends
  read the same millisecond; the first is answered and the second fails. The toast is shown
  and nothing is deleted, but the entry flagged \<open>failed\<close> is the one of the answered send,
  and the entry of the failing send has no flag.
\<close>

theorem C7_failed_send_flags_other_entry:
  "container (sendMessageAwaited 5 5 (Some ''b'') (Rejected ''offline'')
      (sendMessageAwaited 5 5 (Some ''a'') (Resolved None) initialPage)) =
     [Wrapper \<lparr>messageId = ''temp-5'', wrapperRole = User, optimistic = True, failed = True,
        textContent = ''a'', optionButtons = [], stamp = 5\<rparr>,
      Wrapper \<lparr>messageId = ''temp-5'', wrapperRole = User, optimistic = True, failed = False,
        textContent = ''b'', optionButtons = [], stamp = 5\<rparr>] \<and>
   toasts (sendMessageAwaited 5 5 (Some ''b'') (Rejected ''offline'')
      (sendMessageAwaited 5 5 (Some ''a'') (Resolved None) initialPage)) =
     [(''offline'', ''error'')] \<and>
   requests (sendMessageAwaited 5 5 (Some ''b'') (Rejected ''offline'')
      (sendMessageAwaited 5 5 (Some ''a'') (Resolved None) initialPage)) =
     [SendMessageRequest None ''a'', SendMessageRequest None ''b'']"
  by (simp add: sendMessageAwaited_def chat_defs string_defs)

section \<open>Reconciliation\<close>

lemma reconcile_first_provisional:
  "list_all (\<lambda>n. \<not> isProvisional n) pre \<Longrightarrow> startsWith ''temp-'' (messageId w) \<Longrightarrow>
   reconcile m (pre @ Wrapper w # post) =
     (if textContent w = content m
      then Some (pre @ Wrapper (w\<lparr>messageId := msgId m, optimistic := False\<rparr>) # post)
      else None)"
proof (induction pre)
  case Nil
  then show ?case by simp
next
  case (Cons n pre)
  then show ?case by (cases n) simp_all
qed

lemma reconcile_no_provisional:
  "list_all (\<lambda>n. \<not> isProvisional n) ns \<Longrightarrow> reconcile m ns = None"
proof (induction ns)
  case Nil
  then show ?case by simp
next
  case (Cons n ns)
  then show ?case by (cases n) simp_all
qed

lemma addMessage_first_provisional:
  assumes "role m = User" and "\<not> startsWith ''temp-'' (msgId m)"
    and "list_all (\<lambda>n. \<not> isProvisional n) pre" and "startsWith ''temp-'' (messageId w)"
    and "container pg = pre @ Wrapper w # post"
  shows "addMessage m p pg =
     (if textContent w = content m
      then pg\<lparr>container := pre @ Wrapper (w\<lparr>messageId := msgId m, optimistic := False\<rparr>) # post\<rparr>
      else insertMessage m p pg)"
  using assms by (simp add: addMessage_def reconcile_first_provisional)

lemma addMessage_no_provisional:
  assumes "list_all (\<lambda>n. \<not> isProvisional n) (container pg)"
  shows "addMessage m p pg = insertMessage m p pg"
  using assms by (simp add: addMessage_def reconcile_no_provisional)

lemma reconciliation_of_a_plain_message:
  "container (addMessage
      \<lparr>msgId = ''m1'', role = User, content = ''ok'', timestamp = 9, options = []\<rparr> False
      (sendMessageAwaited 5 5 (Some ''ok'') (Resolved None) initialPage)) =
     [Wrapper \<lparr>messageId = ''m1'', wrapperRole = User, optimistic = False, failed = False,
        textContent = ''ok'', optionButtons = [], stamp = 5\<rparr>]"
  by (simp add: sendMessageAwaited_def chat_defs string_defs)

text \<open>
  Claim C1 says that an incoming user message with an authoritative id rewrites a provisional
  entry of the same content in place and adds no second entry. \<open>addMessage\<close> looks at one
  element only, the first whose id starts with \<open>temp-\<close>, and compares the text it displays
  with the content. After two sends (\<open>a\<close>, then \<open>b\<close>; the response of a send carries the
  assistant's message only, so both entries stay provisional) the user message \<open>b\<close> with id
  \<open>m2\<close> is compared with the entry of \<open>a\<close>, and is appended: the list then holds \<open>b\<close>
  twice and the entry \<open>temp-7\<close> is still provisional. And after one send of a content of
  two lines, the entry displays the lines without the line feed (it became a \<open>br\<close>
  element), so the user message with that content does not match and is appended as well.
\<close>

theorem C1_second_provisional_entry_duplicated:
  "container (addMessage
      \<lparr>msgId = ''m2'', role = User, content = ''b'', timestamp = 9, options = []\<rparr> False
      (sendMessageAwaited 7 7 (Some ''b'') (Resolved None)
        (sendMessageAwaited 5 5 (Some ''a'') (Resolved None) initialPage))) =
     [Wrapper \<lparr>messageId = ''temp-5'', wrapperRole = User, optimistic = True, failed = False,
        textContent = ''a'', optionButtons = [], stamp = 5\<rparr>,
      Wrapper \<lparr>messageId = ''temp-7'', wrapperRole = User, optimistic = True, failed = False,
        textContent = ''b'', optionButtons = [], stamp = 7\<rparr>,
      Wrapper \<lparr>messageId = ''m2'', wrapperRole = User, optimistic = False, failed = False,
        textContent = ''b'', optionButtons = [], stamp = 9\<rparr>] \<and>
   container (addMessage
      \<lparr>msgId = ''m1'', role = User, content = [CHR ''a'', CHR 0x0A, CHR ''b''], timestamp = 9,
        options = []\<rparr> False
      (sendMessageAwaited 5 5 (Some [CHR ''a'', CHR 0x0A, CHR ''b'']) (Resolved None) initialPage)) =
     [Wrapper \<lparr>messageId = ''temp-5'', wrapperRole = User, optimistic = True, failed = False,
        textContent = ''ab'', optionButtons = [], stamp = 5\<rparr>,
      Wrapper \<lparr>messageId = ''m1'', wrapperRole = User, optimistic = False, failed = False,
        textContent = ''ab'', optionButtons = [], stamp = 9\<rparr>]"
  by (simp add: sendMessageAwaited_def chat_defs string_defs)

subsection \<open>Provisional ids\<close>

text \<open>
  Claim C10. Every provisional message \<open>sendMessage\<close> creates has the id \<open>temp-\<close> followed
  by the decimal digits of the reading of \<open>Date.now()\<close>, the role \<open>user\<close> and the clock's
  time as its timestamp, and its element, carrying that id, is the last child of the
  container. Two calls that read the same millisecond therefore create messages with the same
  id, whatever their pages and contents. Reconciliation finds provisional entries by the
  prefix \<open>temp-\<close> of the id alone: for a user message with an authoritative id, the first
  element whose id has the prefix is the one compared (and rewritten when its text is the
  content), whether or not it has the class \<open>optimistic\<close>; and when no element's id has the
  prefix the message is inserted as a new entry, whatever classes the elements have.
\<close>

theorem C10_provisional_ids:
  "(sendMessage now clock arg st = (st1, Some tmp) \<longrightarrow>
      msgId tmp = ''temp-'' @ decimal now \<and> role tmp = User \<and> timestamp tmp = clock \<and>
      (\<exists>pre. container st1 = pre @ [Wrapper (newWrapper tmp)]) \<and>
      messageId (newWrapper tmp) = ''temp-'' @ decimal now) \<and>
   (sendMessage now clock arg st = (st1, Some tmp) \<and>
    sendMessage now clock' arg' st' = (st1', Some tmp') \<longrightarrow> msgId tmp = msgId tmp') \<and>
   (role m = User \<and> \<not> startsWith ''temp-'' (msgId m) \<and>
    list_all (\<lambda>n. \<not> isProvisional n) pre \<and> startsWith ''temp-'' (messageId w) \<and>
    container pg = pre @ Wrapper w # post \<longrightarrow>
      addMessage m p pg =
        (if textContent w = content m
         then pg\<lparr>container := pre @ Wrapper (w\<lparr>messageId := msgId m, optimistic := False\<rparr>) # post\<rparr>
         else insertMessage m p pg)) \<and>
   (list_all (\<lambda>n. \<not> isProvisional n) (container pg) \<longrightarrow>
      addMessage m p pg = insertMessage m p pg)"
proof (intro conjI impI)
  assume a: "sendMessage now clock arg st = (st1, Some tmp)"
  from sendMessage_accepted_message [OF a]
  show "msgId tmp = ''temp-'' @ decimal now" and "role tmp = User" and "timestamp tmp = clock"
    and "messageId (newWrapper tmp) = ''temp-'' @ decimal now"
    by (simp_all add: newWrapper_def)
  from sendMessage_accepted_entry [OF a]
  show "\<exists>pre. container st1 = pre @ [Wrapper (newWrapper tmp)]" .
next
  assume "sendMessage now clock arg st = (st1, Some tmp) \<and>
    sendMessage now clock' arg' st' = (st1', Some tmp')"
  then show "msgId tmp = msgId tmp'"
    using sendMessage_accepted_message [of now clock arg st st1 tmp]
      sendMessage_accepted_message [of now clock' arg' st' st1' tmp']
    by simp
next
  assume "role m = User \<and> \<not> startsWith ''temp-'' (msgId m) \<and>
    list_all (\<lambda>n. \<not> isProvisional n) pre \<and> startsWith ''temp-'' (messageId w) \<and>
    container pg = pre @ Wrapper w # post"
  then show "addMessage m p pg =
        (if textContent w = content m
         then pg\<lparr>container := pre @ Wrapper (w\<lparr>messageId := msgId m, optimistic := False\<rparr>) # post\<rparr>
         else insertMessage m p pg)"
    using addMessage_first_provisional [of m pre w pg post p] by blast
next
  assume "list_all (\<lambda>n. \<not> isProvisional n) (container pg)"
  then show "addMessage m p pg = insertMessage m p pg"
    by (rule addMessage_no_provisional)
qed

theorem C10_provisional_ids_witness:
  "sendMessage 1700000000000 1700000000000 (Some ''Hi'') initialPage = (hiSent, Some hiProvisional) \<and>
   sendMessage 1700000000000 1700000000001 None (initialPage\<lparr>inputValue := '' yo ''\<rparr>) =
     (fst (sendMessage 1700000000000 1700000000001 None (initialPage\<lparr>inputValue := '' yo ''\<rparr>)),
      Some (hiProvisional\<lparr>content := ''yo'', timestamp := 1700000000001\<rparr>)) \<and>
   msgId hiProvisional = ''temp-1700000000000'' \<and>
   msgId hiProvisional = msgId (hiProvisional\<lparr>content := ''yo'', timestamp := 1700000000001\<rparr>) \<and>
   role echoMessage = User \<and> \<not> startsWith ''temp-'' (msgId echoMessage) \<and>
   list_all (\<lambda>n. \<not> isProvisional n) [Wrapper markedEntry] \<and>
   startsWith ''temp-'' (messageId prefixedEntry) \<and>
   addMessage echoMessage False
     (initialPage\<lparr>container := [Wrapper markedEntry, Wrapper prefixedEntry]\<rparr>) =
     initialPage\<lparr>container :=
       [Wrapper markedEntry, Wrapper (prefixedEntry\<lparr>messageId := ''m2''\<rparr>)]\<rparr> \<and>
   addMessage echoMessage False (initialPage\<lparr>container := [Wrapper markedEntry]\<rparr>) =
     insertMessage echoMessage False (initialPage\<lparr>container := [Wrapper markedEntry]\<rparr>)"
proof -
  let ?yo = "hiProvisional\<lparr>content := ''yo'', timestamp := 1700000000001\<rparr>"
  let ?yoPage = "initialPage\<lparr>inputValue := '' yo ''\<rparr>"
  let ?both = "initialPage\<lparr>container := [Wrapper markedEntry, Wrapper prefixedEntry]\<rparr>"
  let ?marked = "initialPage\<lparr>container := [Wrapper markedEntry]\<rparr>"
  have h1: "sendMessage 1700000000000 1700000000000 (Some ''Hi'') initialPage =
      (hiSent, Some hiProvisional)"
    by (simp add: example_defs chat_defs string_defs)
  have h2: "sendMessage 1700000000000 1700000000001 None ?yoPage =
      (fst (sendMessage 1700000000000 1700000000001 None ?yoPage), Some ?yo)"
    by (simp add: example_defs chat_defs string_defs)
  have h3: "role echoMessage = User \<and> \<not> startsWith ''temp-'' (msgId echoMessage) \<and>
      list_all (\<lambda>n. \<not> isProvisional n) [Wrapper markedEntry] \<and>
      startsWith ''temp-'' (messageId prefixedEntry) \<and>
      container ?both = [Wrapper markedEntry] @ Wrapper prefixedEntry # []"
    by (simp add: example_defs)
  have h4: "list_all (\<lambda>n. \<not> isProvisional n) (container ?marked)"
    by (simp add: example_defs)
  note a = C10_provisional_ids [where now = 1700000000000 and clock = 1700000000000
      and arg = "Some ''Hi''" and st = initialPage and ?st1.0 = hiSent and tmp = hiProvisional
      and clock' = 1700000000001 and arg' = None and st' = ?yoPage
      and st1' = "fst (sendMessage 1700000000000 1700000000001 None ?yoPage)" and tmp' = ?yo
      and m = echoMessage and pre = "[Wrapper markedEntry]" and w = prefixedEntry
      and pg = ?both and post = "[]" and p = False]
  note b = C10_provisional_ids [where m = echoMessage and pg = ?marked and p = False]
  from a h1 have "msgId hiProvisional = ''temp-'' @ decimal 1700000000000" by blast
  then have c1: "msgId hiProvisional = ''temp-1700000000000''"
    by (simp add: string_defs)
  from a h1 h2 have c2: "msgId hiProvisional = msgId ?yo" by blast
  from a h3 have "addMessage echoMessage False ?both =
      (if textContent prefixedEntry = content echoMessage
       then ?both\<lparr>container := [Wrapper markedEntry] @
              Wrapper (prefixedEntry\<lparr>messageId := msgId echoMessage, optimistic := False\<rparr>) # []\<rparr>
       else insertMessage echoMessage False ?both)"
    by blast
  then have c3: "addMessage echoMessage False ?both =
      initialPage\<lparr>container := [Wrapper markedEntry, Wrapper (prefixedEntry\<lparr>messageId := ''m2''\<rparr>)]\<rparr>"
    by (simp add: example_defs)
  from b h4 have c4: "addMessage echoMessage False ?marked = insertMessage echoMessage False ?marked"
    by blast
  from h1 h2 c1 c2 h3 c3 c4 show ?thesis by blast
qed

section \<open>Date dividers\<close>

text \<open>
  The append path keeps the dividers in their places: \<open>addMessage\<close> without \<open>prepend\<close>
  compares the new message's date with \<open>lastMessageDate\<close>, the date of the last message of
  the list, and a rewrite by reconciliation changes no timestamp. So the list
  \<open>loadMessages\<close> builds has its dividers exactly at the date boundaries.
\<close>

lemma dividersFrom_append:
  "dividersFrom zone prev k ns \<Longrightarrow>
   dividersFrom zone prev k (ns @ rest) = dividersFrom zone (lastStampFrom prev ns) 0 rest"
proof (induction zone prev k ns rule: dividersFrom.induct)
  case (1 zone prev k)
  then show ?case by simp
next
  case (2 zone prev k t ns)
  then show ?case by simp
next
  case (3 zone prev k w ns)
  then show ?case by simp
qed

lemma lastStampFrom_append:
  "lastStampFrom prev (ns @ rest) = lastStampFrom (lastStampFrom prev ns) rest"
  by (induction prev ns rule: lastStampFrom.induct) simp_all

lemma reconcile_keeps_stamps:
  "reconcile m ns = Some ns' \<Longrightarrow>
   dividersFrom zone prev k ns' = dividersFrom zone prev k ns \<and>
   lastStampFrom prev ns' = lastStampFrom prev ns"
proof (induction m ns arbitrary: ns' prev k rule: reconcile.induct)
  case (1 m)
  then show ?case by simp
next
  case (2 m t ns)
  then show ?case by (auto split: option.splits)
next
  case (3 m w ns)
  then show ?case by (auto split: option.splits if_splits)
qed

lemma insertMessage_appendInvariant:
  assumes "appendInvariant st"
  shows "appendInvariant (insertMessage m False st)"
proof -
  from assms have ok: "dividersFrom (zoneOffset st) None 0 (container st)"
    and lmd: "lastMessageDate st =
      map_option (toDateString (zoneOffset st)) (lastStampFrom None (container st))"
    by (simp_all add: appendInvariant_def dividersExact_def)
  show ?thesis
  proof (cases "lastStampFrom None (container st)")
    case None
    with lmd ok show ?thesis
      by (simp add: appendInvariant_def dividersExact_def insertMessage_def Let_def
          dividersFrom_append lastStampFrom_append newWrapper_def)
  next
    case (Some p)
    with lmd ok show ?thesis
      by (simp add: appendInvariant_def dividersExact_def insertMessage_def Let_def
          dividersFrom_append lastStampFrom_append newWrapper_def)
  qed
qed

lemma addMessage_appendInvariant:
  assumes "appendInvariant st"
  shows "appendInvariant (addMessage m False st)"
proof (cases "role m = User \<and> \<not> startsWith ''temp-'' (msgId m)")
  case False
  then have "addMessage m False st = insertMessage m False st"
    by (auto simp: addMessage_def)
  with assms show ?thesis by (simp add: insertMessage_appendInvariant)
next
  case True
  show ?thesis
  proof (cases "reconcile m (container st)")
    case None
    with True have "addMessage m False st = insertMessage m False st"
      by (simp add: addMessage_def)
    with assms show ?thesis by (simp add: insertMessage_appendInvariant)
  next
    case (Some ns)
    with True have "addMessage m False st = st\<lparr>container := ns\<rparr>"
      by (simp add: addMessage_def)
    with assms reconcile_keeps_stamps [OF Some] show ?thesis
      by (simp add: appendInvariant_def dividersExact_def)
  qed
qed

lemma appends_keep_dividers:
  "appendInvariant st \<Longrightarrow> appendInvariant (foldl (\<lambda>s x. addMessage x False s) st ms)"
  by (induction ms arbitrary: st) (simp_all add: addMessage_appendInvariant)

lemma appends_zoneOffset:
  "zoneOffset (foldl (\<lambda>s x. addMessage x False s) st ms) = zoneOffset st"
  by (induction ms arbitrary: st) (simp_all add: addMessage_fields)

lemma loadMessages_dividers:
  assumes "messages r \<noteq> []"
  shows "dividersExact (zoneOffset st) (container (loadMessagesSettled (Some r) st))"
proof -
  from assms obtain m ms where ms: "messages r = m # ms"
    by (cases "messages r") auto
  have "appendInvariant (st\<lparr>container := [], lastMessageDate := None\<rparr>)"
    by (simp add: appendInvariant_def dividersExact_def)
  then have "appendInvariant (foldl (\<lambda>s x. addMessage x False s)
      (st\<lparr>container := [], lastMessageDate := None\<rparr>) (m # ms))"
    by (rule appends_keep_dividers)
  then have "dividersExact (zoneOffset st) (container (foldl (\<lambda>s x. addMessage x False s)
      (st\<lparr>container := [], lastMessageDate := None\<rparr>) (m # ms)))"
    unfolding appendInvariant_def appends_zoneOffset by simp
  then show ?thesis
    by (simp add: loadMessagesSettled_def Let_def ms)
qed

text \<open>
  Claim C2 says that after any appends and prepends a date divider stands between two
  adjacent messages exactly when their dates differ, and nowhere else, and is not duplicated
  where a prepended page meets the list. \<open>prependMessages\<close> starts every page with
  \<open>lastDate = null\<close> and never looks at the list it prepends to: a page gets a divider
  before its first message, and none between its last message and the message that was first
  before. With one message of the second day in the list, prepending one message of the first
  day gives a divider on top and none between the two days; prepending another message of the
  first day then leaves a divider between two messages of the same day.
\<close>

theorem C2_page_boundary_divider_missing:
  "toDateString (zoneOffset initialPage) 500 = toDateString (zoneOffset initialPage) 1000 \<and>
   toDateString (zoneOffset initialPage) 1000 \<noteq> toDateString (zoneOffset initialPage) 86401000 \<and>
   container (prependMessages
       [\<lparr>msgId = ''m1'', role = Assistant, content = ''old'', timestamp = 1000, options = []\<rparr>]
       (addMessage \<lparr>msgId = ''m2'', role = Assistant, content = ''new'', timestamp = 86401000, options = []\<rparr>
          False initialPage)) =
     [Divider 1000,
      Wrapper \<lparr>messageId = ''m1'', wrapperRole = Assistant, optimistic = False, failed = False,
        textContent = ''old'', optionButtons = [], stamp = 1000\<rparr>,
      Wrapper \<lparr>messageId = ''m2'', wrapperRole = Assistant, optimistic = False, failed = False,
        textContent = ''new'', optionButtons = [], stamp = 86401000\<rparr>] \<and>
   \<not> dividersExact (zoneOffset initialPage) (container (prependMessages
       [\<lparr>msgId = ''m1'', role = Assistant, content = ''old'', timestamp = 1000, options = []\<rparr>]
       (addMessage \<lparr>msgId = ''m2'', role = Assistant, content = ''new'', timestamp = 86401000, options = []\<rparr>
          False initialPage))) \<and>
   container (prependMessages
     [\<lparr>msgId = ''m0'', role = User, content = ''oldest'', timestamp = 500, options = []\<rparr>]
     (prependMessages
       [\<lparr>msgId = ''m1'', role = Assistant, content = ''old'', timestamp = 1000, options = []\<rparr>]
       (addMessage \<lparr>msgId = ''m2'', role = Assistant, content = ''new'', timestamp = 86401000, options = []\<rparr>
          False initialPage))) =
     [Divider 500,
      Wrapper \<lparr>messageId = ''m0'', wrapperRole = User, optimistic = False, failed = False,
        textContent = ''oldest'', optionButtons = [], stamp = 500\<rparr>,
      Divider 1000,
      Wrapper \<lparr>messageId = ''m1'', wrapperRole = Assistant, optimistic = False, failed = False,
        textContent = ''old'', optionButtons = [], stamp = 1000\<rparr>,
      Wrapper \<lparr>messageId = ''m2'', wrapperRole = Assistant, optimistic = False, failed = False,
        textContent = ''new'', optionButtons = [], stamp = 86401000\<rparr>] \<and>
   \<not> dividersExact (zoneOffset initialPage) (container (prependMessages
     [\<lparr>msgId = ''m0'', role = User, content = ''oldest'', timestamp = 500, options = []\<rparr>]
     (prependMessages
       [\<lparr>msgId = ''m1'', role = Assistant, content = ''old'', timestamp = 1000, options = []\<rparr>]
       (addMessage \<lparr>msgId = ''m2'', role = Assistant, content = ''new'', timestamp = 86401000, options = []\<rparr>
          False initialPage))))"
  by (simp add: dividersExact_def chat_defs string_defs)

section \<open>Pagination\<close>

lemma loadOlderMessages_guard:
  "isLoadingMore st \<or> \<not> hasMoreMessages st \<or> \<not> truthy (oldestMessageId st) \<Longrightarrow>
   loadOlderMessages L st = (st, None)"
  by (auto simp: loadOlderMessages_def)

lemma loadOlderMessages_issued:
  assumes "loadOlderMessages L st = (st1, Some saved)"
  shows "isLoadingMore st1 \<and>
     requests st1 = requests st @ [GetMessagesRequest (the (storedUserId st)) (the (oldestMessageId st)) 20] \<and>
     saved = \<lparr>savedScrollHeight = scrollHeight L (st\<lparr>isLoadingMore := True, loadingShown := True\<rparr>),
              savedScrollTop = scrollTop st\<rparr>"
  using assms
  by (auto simp: loadOlderMessages_def Let_def showLoadingIndicator_def loadFinally_def scrollHeight_def
      split: if_splits)

text \<open>
  Claim C6. \<open>loadOlderMessages\<close> returns the page as it was, so without a fetch, whenever
  \<open>isLoadingMore\<close> is true, \<open>hasMoreMessages\<close> is false or \<open>oldestMessageId\<close> is unset
  (null or empty). A call that issued a fetch and is still waiting has left \<open>isLoadingMore\<close>
  true; a second call made then changes nothing, so that the two calls together issued
  exactly one fetch.
\<close>

theorem C6_pagination_single_flight:
  "(isLoadingMore st \<or> \<not> hasMoreMessages st \<or> \<not> truthy (oldestMessageId st) \<longrightarrow>
      loadOlderMessages L st = (st, None)) \<and>
   (loadOlderMessages L st = (st1, Some saved) \<longrightarrow>
      isLoadingMore st1 \<and> loadOlderMessages L' st1 = (st1, None) \<and>
      (\<exists>uid before.
         requests st1 = requests st @ [GetMessagesRequest uid before 20] \<and>
         requests (fst (loadOlderMessages L' st1)) = requests st @ [GetMessagesRequest uid before 20]))"
proof (intro conjI impI)
  assume "isLoadingMore st \<or> \<not> hasMoreMessages st \<or> \<not> truthy (oldestMessageId st)"
  then show "loadOlderMessages L st = (st, None)"
    by (rule loadOlderMessages_guard)
next
  assume a: "loadOlderMessages L st = (st1, Some saved)"
  from loadOlderMessages_issued [OF a] show busy: "isLoadingMore st1" by simp
  then show second: "loadOlderMessages L' st1 = (st1, None)"
    by (simp add: loadOlderMessages_guard)
  from loadOlderMessages_issued [OF a] second
  show "\<exists>uid before.
         requests st1 = requests st @ [GetMessagesRequest uid before 20] \<and>
         requests (fst (loadOlderMessages L' st1)) = requests st @ [GetMessagesRequest uid before 20]"
    by auto
qed

theorem C6_pagination_single_flight_witness:
  "isLoadingMore fetchingPage \<and>
   loadOlderMessages rowLayout fetchingPage = (fetchingPage, None) \<and>
   \<not> hasMoreMessages (loadedPage\<lparr>hasMoreMessages := False\<rparr>) \<and>
   loadOlderMessages rowLayout (loadedPage\<lparr>hasMoreMessages := False\<rparr>) =
     (loadedPage\<lparr>hasMoreMessages := False\<rparr>, None) \<and>
   \<not> truthy (oldestMessageId initialPage) \<and>
   loadOlderMessages rowLayout initialPage = (initialPage, None) \<and>
   loadOlderMessages rowLayout loadedPage = (fetchingPage, Some savedReadings) \<and>
   requests loadedPage = [GetLatestMessagesRequest (Some ''u1'') 50] \<and>
   requests fetchingPage =
     [GetLatestMessagesRequest (Some ''u1'') 50, GetMessagesRequest ''u1'' ''m3'' 20] \<and>
   requests (fst (loadOlderMessages rowLayout fetchingPage)) =
     [GetLatestMessagesRequest (Some ''u1'') 50, GetMessagesRequest ''u1'' ''m3'' 20]"
proof -
  have h1: "loadOlderMessages rowLayout loadedPage = (fetchingPage, Some savedReadings)"
    by (simp add: example_defs scroll_defs chat_defs string_defs)
  have h2: "\<not> hasMoreMessages (loadedPage\<lparr>hasMoreMessages := False\<rparr>)"
    by simp
  have h3: "\<not> truthy (oldestMessageId initialPage)"
    by (simp add: initialPage_def truthy_def)
  have r0: "requests loadedPage = [GetLatestMessagesRequest (Some ''u1'') 50]"
    by (simp add: example_defs scroll_defs chat_defs string_defs)
  have r1: "requests fetchingPage =
      [GetLatestMessagesRequest (Some ''u1'') 50, GetMessagesRequest ''u1'' ''m3'' 20]"
    by (simp add: example_defs scroll_defs chat_defs string_defs)
  note a = C6_pagination_single_flight [of loadedPage rowLayout fetchingPage savedReadings rowLayout]
  note b = C6_pagination_single_flight [of "loadedPage\<lparr>hasMoreMessages := False\<rparr>" rowLayout]
  note c = C6_pagination_single_flight [of initialPage rowLayout]
  from a h1 have busy: "isLoadingMore fetchingPage"
    and again: "loadOlderMessages rowLayout fetchingPage = (fetchingPage, None)"
    by blast+
  from b h2 have nomore: "loadOlderMessages rowLayout (loadedPage\<lparr>hasMoreMessages := False\<rparr>) =
     (loadedPage\<lparr>hasMoreMessages := False\<rparr>, None)"
    by blast
  from c h3 have unset: "loadOlderMessages rowLayout initialPage = (initialPage, None)"
    by blast
  from again r1
  have r2: "requests (fst (loadOlderMessages rowLayout fetchingPage)) =
      [GetLatestMessagesRequest (Some ''u1'') 50, GetMessagesRequest ''u1'' ''m3'' 20]"
    by simp
  from busy again h2 nomore h3 unset h1 r0 r1 r2 show ?thesis by blast
qed

text \<open>
  Claim C8. When the fetch of \<open>loadOlderMessages\<close> settles: an empty page sets
  \<open>hasMoreMessages\<close> to false and reports no error (no toast is shown); a non-empty page
  sets \<open>oldestMessageId\<close> to the response's \<open>next_cursor\<close> when it has one (a non-empty
  string: \<open>||\<close> takes the empty string like an absent field) and to the id of the first
  returned message otherwise; and for every outcome, page or error, \<open>isLoadingMore\<close> is
  false when the call completes.
\<close>

theorem C8_pagination_postconditions:
  "(messages r = [] \<longrightarrow>
      \<not> hasMoreMessages (loadOlderMessagesSettled L saved (Loaded r) st) \<and>
      toasts (loadOlderMessagesSettled L saved (Loaded r) st) = toasts st) \<and>
   (messages r = m # ms \<longrightarrow>
      oldestMessageId (loadOlderMessagesSettled L saved (Loaded r) st) =
        Some (case next_cursor r of
                None \<Rightarrow> msgId m
              | Some c \<Rightarrow> if c \<noteq> [] then c else msgId m)) \<and>
   \<not> isLoadingMore (loadOlderMessagesSettled L saved outcome st)"
proof (intro conjI impI)
  assume "messages r = []"
  then show "\<not> hasMoreMessages (loadOlderMessagesSettled L saved (Loaded r) st)"
    and "toasts (loadOlderMessagesSettled L saved (Loaded r) st) = toasts st"
    by (simp_all add: loadOlderMessagesSettled_def loadFinally_def showLoadingIndicator_def)
next
  assume "messages r = m # ms"
  then show "oldestMessageId (loadOlderMessagesSettled L saved (Loaded r) st) =
        Some (case next_cursor r of
                None \<Rightarrow> msgId m
              | Some c \<Rightarrow> if c \<noteq> [] then c else msgId m)"
    by (simp add: loadOlderMessagesSettled_def loadFinally_def showLoadingIndicator_def Let_def
        setScrollTop_def prependMessages_def truthy_def split: option.splits)
next
  show "\<not> isLoadingMore (loadOlderMessagesSettled L saved outcome st)"
    by (simp add: loadOlderMessagesSettled_def loadFinally_def showLoadingIndicator_def)
qed

theorem C8_pagination_postconditions_witness:
  "messages emptyResponse = [] \<and>
   \<not> hasMoreMessages (loadOlderMessagesSettled rowLayout savedReadings (Loaded emptyResponse) fetchingPage) \<and>
   toasts (loadOlderMessagesSettled rowLayout savedReadings (Loaded emptyResponse) fetchingPage) = [] \<and>
   oldestMessageId (loadOlderMessagesSettled rowLayout savedReadings (Loaded olderResponse) fetchingPage) =
     Some ''m2'' \<and>
   oldestMessageId
     (loadOlderMessagesSettled rowLayout savedReadings
        (Loaded (olderResponse\<lparr>next_cursor := Some ''m1''\<rparr>)) fetchingPage) =
     Some ''m1'' \<and>
   \<not> isLoadingMore (loadOlderMessagesSettled rowLayout savedReadings LoadRejected fetchingPage)"
proof -
  let ?m = "\<lparr>msgId = ''m2'', role = Assistant, content = ''earlier'', timestamp = 86400500,
      options = []\<rparr>"
  let ?cursor = "olderResponse\<lparr>next_cursor := Some ''m1''\<rparr>"
  have e: "messages emptyResponse = []"
    by (simp add: emptyResponse_def)
  have n1: "messages olderResponse = ?m # []" and k1: "next_cursor olderResponse = None"
    by (simp_all add: olderResponse_def)
  have n2: "messages ?cursor = ?m # []" and k2: "next_cursor ?cursor = Some ''m1''"
    by (simp_all add: olderResponse_def)
  have t0: "toasts fetchingPage = []"
    by (simp add: example_defs scroll_defs chat_defs string_defs)
  note a = C8_pagination_postconditions
    [of emptyResponse rowLayout savedReadings fetchingPage ?m "[]" LoadRejected]
  note b = C8_pagination_postconditions
    [of olderResponse rowLayout savedReadings fetchingPage ?m "[]" LoadRejected]
  note c = C8_pagination_postconditions
    [of ?cursor rowLayout savedReadings fetchingPage ?m "[]" LoadRejected]
  from a e t0
  have p1: "\<not> hasMoreMessages
      (loadOlderMessagesSettled rowLayout savedReadings (Loaded emptyResponse) fetchingPage)"
    and p2: "toasts
      (loadOlderMessagesSettled rowLayout savedReadings (Loaded emptyResponse) fetchingPage) = []"
    and p5: "\<not> isLoadingMore
      (loadOlderMessagesSettled rowLayout savedReadings LoadRejected fetchingPage)"
    by simp_all
  from b n1 k1
  have p3: "oldestMessageId
      (loadOlderMessagesSettled rowLayout savedReadings (Loaded olderResponse) fetchingPage) =
      Some ''m2''"
    by simp
  from c n2 k2
  have p4: "oldestMessageId
      (loadOlderMessagesSettled rowLayout savedReadings (Loaded ?cursor) fetchingPage) = Some ''m1''"
    by simp
  from e p1 p2 p3 p4 p5 show ?thesis by blast
qed

section \<open>Scroll anchoring\<close>

text \<open>
  When nothing moves the offset or changes the content while the fetch is outstanding, the
  offset assigned after the prepend is the offset before it plus the growth of the scroll
  height (within the scrollable range).
\<close>

lemma anchor_when_undisturbed:
  assumes "loadOlderMessages L st = (st1, Some saved)" and "messages r \<noteq> []"
  shows "scrollTop (loadOlderMessagesSettled L saved (Loaded r) st1) =
     max 0 (min (scrollTop st1 +
         (scrollHeight L (prependMessages (messages r) st1) - scrollHeight L st1))
       (scrollHeight L (prependMessages (messages r) st1) - clientHeight L))"
proof -
  from loadOlderMessages_issued [OF assms(1)]
  have s: "savedScrollTop saved = scrollTop st"
    "savedScrollHeight saved = scrollHeight L (st\<lparr>isLoadingMore := True, loadingShown := True\<rparr>)"
    by simp_all
  from assms(1) have st1: "st1 = (st\<lparr>isLoadingMore := True, loadingShown := True\<rparr>)
      \<lparr>requests := requests st @ [GetMessagesRequest (the (storedUserId st)) (the (oldestMessageId st)) 20]\<rparr>"
    by (auto simp: loadOlderMessages_def Let_def showLoadingIndicator_def loadFinally_def split: if_splits)
  from assms(2) obtain m ms where ms: "messages r = m # ms" by (cases "messages r") auto
  show ?thesis
    by (simp add: loadOlderMessagesSettled_def ms loadFinally_def showLoadingIndicator_def Let_def
        setScrollTop_def prependMessages_def scrollHeight_def s st1)
qed

text \<open>
  Claim C4 takes the height \<open>H0\<close> and offset \<open>T0\<close> as read immediately before the
  prepend. \<open>loadOlderMessages\<close> reads them before it awaits the fetch, and the offset it
  assigns is computed from those readings. In the run below the user scrolls from offset 50
  to offset 0 while the fetch is outstanding; the page then adds 200 units above (height 200
  before the prepend, 400 after), and the offset is set to 250, not to 0 + 200: what was
  visible before the prepend has moved by 50 units.
\<close>

theorem C4_anchor_lost_when_scrolled_during_fetch:
  "loadOlderMessages rowLayout loadedPage = (fetchingPage, Some savedReadings) \<and>
   savedReadings = \<lparr>savedScrollHeight = 200, savedScrollTop = 50\<rparr> \<and>
   scrollTop (userScroll rowLayout 0 fetchingPage) = 0 \<and>
   scrollHeight rowLayout (userScroll rowLayout 0 fetchingPage) = 200 \<and>
   scrollHeight rowLayout
     (loadOlderMessagesSettled rowLayout savedReadings (Loaded olderResponse)
        (userScroll rowLayout 0 fetchingPage)) = 400 \<and>
   scrollTop
     (loadOlderMessagesSettled rowLayout savedReadings (Loaded olderResponse)
        (userScroll rowLayout 0 fetchingPage)) = 250"
  by (simp add: example_defs scroll_defs chat_defs string_defs)

theorem C4_anchor_lost_when_scrolled_during_fetch_witness:
  "scrollTop
     (loadOlderMessagesSettled rowLayout savedReadings (Loaded olderResponse)
        (userScroll rowLayout 0 fetchingPage)) \<noteq>
   scrollTop (userScroll rowLayout 0 fetchingPage) +
   (scrollHeight rowLayout
      (loadOlderMessagesSettled rowLayout savedReadings (Loaded olderResponse)
         (userScroll rowLayout 0 fetchingPage)) -
    scrollHeight rowLayout (userScroll rowLayout 0 fetchingPage))"
  using C4_anchor_lost_when_scrolled_during_fetch by simp

section \<open>The reconnect budget\<close>

lemma onclose_effect:
  "reconnectAttempts (onclose t) =
     (if reconnectAttempts t < maxReconnectAttempts t then reconnectAttempts t + 1
      else reconnectAttempts t) \<and>
   timers (onclose t) =
     (if reconnectAttempts t < maxReconnectAttempts t then timers t @ [reconnectInterval t]
      else timers t)"
  by (simp add: transport_defs)

lemma step_budget:
  "step t e = Some t' \<Longrightarrow> e \<noteq> Opened \<Longrightarrow>
   budget t' = budget t \<and> maxReconnectAttempts t' = maxReconnectAttempts t \<and>
   automatic t \<le> automatic t'"
  by (cases e) (auto simp: budget_def transport_defs split: if_splits list.splits)

lemma run_budget:
  "run t es = Some t' \<Longrightarrow> Opened \<notin> set es \<Longrightarrow>
   budget t' = budget t \<and> maxReconnectAttempts t' = maxReconnectAttempts t \<and>
   automatic t \<le> automatic t'"
proof (induction es arbitrary: t)
  case Nil
  then show ?case by simp
next
  case (Cons e es)
  from Cons.prems(1) obtain u where u: "step t e = Some u" and r: "run u es = Some t'"
    by (auto split: option.splits)
  from Cons.prems(2) have ne: "e \<noteq> Opened" and rest: "Opened \<notin> set es" by auto
  from step_budget [OF u ne] Cons.IH [OF r rest] show ?case by simp
qed

lemma exhausted_stuck:
  "maxReconnectAttempts t \<le> reconnectAttempts t \<Longrightarrow> timers t = [] \<Longrightarrow> connecting t = 0 \<Longrightarrow>
   opened t = 0 \<Longrightarrow> e \<noteq> Connect \<Longrightarrow> step t e = None"
  by (cases e) simp_all

text \<open>
  Claim C5. The close handler increments \<open>reconnectAttempts\<close> and schedules a reconnect
  after \<open>reconnectInterval\<close> when \<open>reconnectAttempts < maxReconnectAttempts\<close>, and does
  neither otherwise; the open handler sets \<open>reconnectAttempts\<close> to zero. Along every run in
  which no socket opens, the automatic reconnects made, plus those scheduled, plus those the
  counter still allows, stay the same number: a transport that starts with the counter at zero
  and nothing scheduled makes at most \<open>maxReconnectAttempts\<close> automatic reconnects. Once
  the counter has reached the maximum and nothing is scheduled, no automatic reconnect is made
  as long as no socket opens, even when \<open>connect\<close> is called from outside and fails; and
  with no socket left, nothing can happen but such an explicit call.
\<close>

theorem C5_reconnect_budget:
  "reconnectAttempts (onclose t) =
     (if reconnectAttempts t < maxReconnectAttempts t then reconnectAttempts t + 1
      else reconnectAttempts t) \<and>
   timers (onclose t) =
     (if reconnectAttempts t < maxReconnectAttempts t then timers t @ [reconnectInterval t]
      else timers t) \<and>
   reconnectAttempts (onopen t) = 0 \<and>
   (run t es = Some t' \<and> Opened \<notin> set es \<longrightarrow>
      automatic t' + length (timers t') + (maxReconnectAttempts t - reconnectAttempts t') =
      automatic t + length (timers t) + (maxReconnectAttempts t - reconnectAttempts t)) \<and>
   (run t es = Some t' \<and> Opened \<notin> set es \<and>
    maxReconnectAttempts t \<le> reconnectAttempts t \<and> timers t = [] \<longrightarrow>
      automatic t' = automatic t) \<and>
   (maxReconnectAttempts t \<le> reconnectAttempts t \<and> timers t = [] \<and> connecting t = 0 \<and>
    opened t = 0 \<and> e \<noteq> Connect \<longrightarrow> step t e = None)"
proof (intro conjI impI)
  show "reconnectAttempts (onclose t) =
     (if reconnectAttempts t < maxReconnectAttempts t then reconnectAttempts t + 1
      else reconnectAttempts t)"
    and "timers (onclose t) =
     (if reconnectAttempts t < maxReconnectAttempts t then timers t @ [reconnectInterval t]
      else timers t)"
    using onclose_effect [of t] by simp_all
  show "reconnectAttempts (onopen t) = 0"
    by (simp add: onopen_def)
next
  assume a: "run t es = Some t' \<and> Opened \<notin> set es"
  then have b: "budget t' = budget t" and m: "maxReconnectAttempts t' = maxReconnectAttempts t"
    using run_budget [of t es t'] by simp_all
  from b show "automatic t' + length (timers t') + (maxReconnectAttempts t - reconnectAttempts t') =
      automatic t + length (timers t) + (maxReconnectAttempts t - reconnectAttempts t)"
    unfolding budget_def m .
next
  assume a: "run t es = Some t' \<and> Opened \<notin> set es \<and>
    maxReconnectAttempts t \<le> reconnectAttempts t \<and> timers t = []"
  then have "budget t' = budget t" and "automatic t \<le> automatic t'"
    using run_budget [of t es t'] by simp_all
  with a show "automatic t' = automatic t"
    by (simp add: budget_def)
next
  assume "maxReconnectAttempts t \<le> reconnectAttempts t \<and> timers t = [] \<and> connecting t = 0 \<and>
    opened t = 0 \<and> e \<noteq> Connect"
  then show "step t e = None"
    using exhausted_stuck [of t e] by simp
qed

theorem C5_reconnect_budget_witness:
  "run initialTransport failedReconnects = Some exhaustedTransport \<and>
   Opened \<notin> set failedReconnects \<and>
   automatic exhaustedTransport = maxReconnectAttempts initialTransport \<and>
   maxReconnectAttempts exhaustedTransport \<le> reconnectAttempts exhaustedTransport \<and>
   timers exhaustedTransport = [] \<and>
   connecting exhaustedTransport = 0 \<and> opened exhaustedTransport = 0 \<and>
   run exhaustedTransport [Connect, Failed] = Some (exhaustedTransport\<lparr>sockets := 7\<rparr>) \<and>
   Opened \<notin> set [Connect, Failed] \<and>
   automatic (exhaustedTransport\<lparr>sockets := 7\<rparr>) = automatic exhaustedTransport \<and>
   TimerFired \<noteq> Connect \<and>
   step exhaustedTransport TimerFired = None"
proof -
  have r1: "run initialTransport failedReconnects = Some exhaustedTransport \<and>
      Opened \<notin> set failedReconnects"
    by (simp add: initialTransport_def failedReconnects_def exhaustedTransport_def transport_defs)
  have r2: "run exhaustedTransport [Connect, Failed] = Some (exhaustedTransport\<lparr>sockets := 7\<rparr>) \<and>
      Opened \<notin> set [Connect, Failed] \<and>
      maxReconnectAttempts exhaustedTransport \<le> reconnectAttempts exhaustedTransport \<and>
      timers exhaustedTransport = []"
    by (simp add: exhaustedTransport_def transport_defs)
  have r3: "maxReconnectAttempts exhaustedTransport \<le> reconnectAttempts exhaustedTransport \<and>
      timers exhaustedTransport = [] \<and> connecting exhaustedTransport = 0 \<and>
      opened exhaustedTransport = 0 \<and> TimerFired \<noteq> Connect"
    by (simp add: exhaustedTransport_def)
  note a = C5_reconnect_budget [of initialTransport failedReconnects exhaustedTransport TimerFired]
  note b = C5_reconnect_budget
    [of exhaustedTransport "[Connect, Failed]" "exhaustedTransport\<lparr>sockets := 7\<rparr>" TimerFired]
  from a r1 have "automatic exhaustedTransport + length (timers exhaustedTransport) +
      (maxReconnectAttempts initialTransport - reconnectAttempts exhaustedTransport) =
      automatic initialTransport + length (timers initialTransport) +
      (maxReconnectAttempts initialTransport - reconnectAttempts initialTransport)"
    by blast
  then have c1: "automatic exhaustedTransport = maxReconnectAttempts initialTransport"
    by (simp add: initialTransport_def exhaustedTransport_def)
  from b r2 have c2: "automatic (exhaustedTransport\<lparr>sockets := 7\<rparr>) = automatic exhaustedTransport"
    by blast
  from b r3 have c3: "step exhaustedTransport TimerFired = None"
    by blast
  from r1 r2 r3 c1 c2 c3 show ?thesis by blast
qed

end
